theory Spec2Isabelle
  imports Main "HOL-Library.Sublist" "HOL-Library.Multiset"
begin

section \<open>Data model\<close>

text \<open>
  The classes of \<^verbatim>\<open>models/schema.py\<close> and \<^verbatim>\<open>services/resume_matcher.py\<close> as records.
  A Python \<^verbatim>\<open>str\<close> is a sequence of code points; the model covers the code points below
  256, one \<^typ>\<open>char\<close> each, so \<^const>\<open>length\<close> is Python's \<^verbatim>\<open>len\<close>. Field names that several
  classes share carry a prefix.
\<close>

record BulletPoint =
  bullet_point :: string

record CompanyInfo =
  ci_name :: string
  ci_period :: string
  ci_location :: string

record Experience =
  company_info :: CompanyInfo
  job_title :: string
  bullet_points :: "BulletPoint list"

record Education =
  university_name :: string
  edu_period :: string
  edu_location :: string
  degree :: string

record EmploymentHistory =
  company_name :: string
  eh_period :: string
  eh_location :: string

record Skill =
  category :: string
  skill_list :: string

record ResumeData =
  rd_name :: string
  rd_title :: string
  rd_email :: string
  rd_phone :: string
  rd_location :: string
  rd_linkedin :: "string option"
  summary :: string
  experiences :: "Experience list"
  education :: "Education list"
  employment_history :: "EmploymentHistory list option"
  skills :: "Skill list"

record Skills =
  hard_skills :: "string list"
  soft_skills :: "string list"


text \<open>
  The \<^verbatim>\<open>user_info\<close> dictionary. A field is \<^const>\<open>None\<close> when its key is absent (for
  \<^verbatim>\<open>linkedin\<close> also when its value is \<^verbatim>\<open>None\<close>); the entries of the two lists are the
  \<^verbatim>\<open>model_dump()\<close> dictionaries of the profile, which hold every field.
\<close>

record user_info =
  ui_name :: "string option"
  ui_title :: "string option"
  ui_email :: "string option"
  ui_phone :: "string option"
  ui_location :: "string option"
  ui_linkedin :: "string option"
  ui_education :: "Education list option"
  ui_employment_history :: "EmploymentHistory list option"

datatype py_exception =
  GenerationError | KeyError | ValidationError | TypeError | FileNotFoundError

text \<open>
  The values that \<^verbatim>\<open>generate_tailored_resume\<close> interpolates into the fixed text of its system
  message: the generation call is a function of them.
\<close>

record generation_request =
  gr_job_description :: string
  gr_user_profile :: string
  gr_hard_skills :: string
  gr_soft_skills :: string
  gr_num_experiences :: nat

text \<open>
  A \<^verbatim>\<open>ResumeMatcher\<close> instance: its experience text and its client. The two calls of the
  client are functions that either raise or return the parsed object (a response whose
  parsed object is \<^verbatim>\<open>None\<close> raises at its first attribute access, inside the same
  \<^verbatim>\<open>try\<close>).
\<close>

record ResumeMatcher =
  experience_data :: string
  skills_response :: "string \<Rightarrow> py_exception + Skills"
  resume_response :: "generation_request \<Rightarrow> py_exception + ResumeData"

section \<open>String operations of the Python library\<close>

definition code_point :: "char \<Rightarrow> nat" where
  "code_point c = of_char c"

definition newline :: char where
  "newline = CHR 0x0A"

definition dquote :: char where
  "dquote = CHR 0x22"

definition is_ascii_letter :: "char \<Rightarrow> bool" where
  \<comment> \<open>the class \<^verbatim>\<open>[a-zA-Z]\<close>\<close>
  "is_ascii_letter c =
     (let n = code_point c in (65 \<le> n \<and> n \<le> 90) \<or> (97 \<le> n \<and> n \<le> 122))"

definition is_word_char :: "char \<Rightarrow> bool" where
  \<comment> \<open>the class \<^verbatim>\<open>\w\<close> of a \<^verbatim>\<open>str\<close> pattern, below 256\<close>
  "is_word_char c =
     (let n = code_point c in
        (48 \<le> n \<and> n \<le> 57) \<or> (65 \<le> n \<and> n \<le> 90) \<or> n = 95 \<or> (97 \<le> n \<and> n \<le> 122) \<or>
        n = 170 \<or> n = 178 \<or> n = 179 \<or> n = 181 \<or> n = 185 \<or> n = 186 \<or>
        (188 \<le> n \<and> n \<le> 190) \<or> (192 \<le> n \<and> n \<le> 214) \<or> (216 \<le> n \<and> n \<le> 246) \<or>
        248 \<le> n)"

definition is_space :: "char \<Rightarrow> bool" where
  \<comment> \<open>\<^verbatim>\<open>str.isspace\<close>, below 256\<close>
  "is_space c =
     (let n = code_point c in
        (9 \<le> n \<and> n \<le> 13) \<or> (28 \<le> n \<and> n \<le> 32) \<or> n = 133 \<or> n = 160)"

definition lower_char :: "char \<Rightarrow> char" where
  "lower_char c =
     (let n = code_point c in
        if (65 \<le> n \<and> n \<le> 90) \<or> (192 \<le> n \<and> n \<le> 222 \<and> n \<noteq> 215) then char_of (n + 32) else c)"

definition py_lower :: "string \<Rightarrow> string" where
  \<comment> \<open>\<^verbatim>\<open>str.lower\<close>\<close>
  "py_lower s = map lower_char s"

definition py_strip :: "string \<Rightarrow> string" where
  \<comment> \<open>\<^verbatim>\<open>str.strip()\<close>\<close>
  "py_strip s = rev (dropWhile is_space (rev (dropWhile is_space s)))"

fun py_contains :: "string \<Rightarrow> string \<Rightarrow> bool" where
  \<comment> \<open>\<^verbatim>\<open>sub in s\<close>, as \<open>py_contains s sub\<close>\<close>
  "py_contains [] sub = (sub = [])"
| "py_contains (c # cs) sub = (prefix sub (c # cs) \<or> py_contains cs sub)"

fun py_join :: "string \<Rightarrow> string list \<Rightarrow> string" where
  \<comment> \<open>\<^verbatim>\<open>sep.join(parts)\<close>\<close>
  "py_join sep [] = []"
| "py_join sep [part] = part"
| "py_join sep (part # nxt # parts) = part @ sep @ py_join sep (nxt # parts)"

definition py_sorted_reverse :: "('a \<Rightarrow> nat) \<Rightarrow> 'a list \<Rightarrow> 'a list" where
  \<comment> \<open>\<^verbatim>\<open>sorted(xs, key=key, reverse=True)\<close>: the list is reversed, sorted by a stable
      ascending sort and reversed again, so equal keys keep their order\<close>
  "py_sorted_reverse key xs = rev (sort_key key (rev xs))"

function re_findall_words :: "bool \<Rightarrow> string \<Rightarrow> string list" where
  \<comment> \<open>\<^verbatim>\<open>re.findall(r'\b[a-zA-Z]+\b', s)\<close>; the flag says whether the character before the
      scanning position is a word character\<close>
  "re_findall_words prev [] = []"
| "re_findall_words prev (c # cs) =
     (if \<not> prev \<and> is_ascii_letter c then
        (case dropWhile is_ascii_letter cs of
           [] \<Rightarrow> [c # takeWhile is_ascii_letter cs]
         | d # ds \<Rightarrow>
             if is_word_char d then re_findall_words True cs
             else (c # takeWhile is_ascii_letter cs) # re_findall_words True (d # ds))
      else re_findall_words (is_word_char c) cs)"
  by pat_completeness auto
termination
  by (relation "measure (\<lambda>(prev, s). length s)")
     (auto simp: less_Suc_eq_le, metis length_Cons length_dropWhile_le)

function re_split_headings :: "string \<Rightarrow> string \<Rightarrow> string list" where
  \<comment> \<open>\<^verbatim>\<open>re.split(r'\n#{2,3} ', s)\<close>; the first argument is the piece read so far\<close>
  "re_split_headings piece s =
     (if prefix [newline, CHR ''#'', CHR ''#'', CHR '' ''] s then
        piece # re_split_headings [] (drop 4 s)
      else if prefix [newline, CHR ''#'', CHR ''#'', CHR ''#'', CHR '' ''] s then
        piece # re_split_headings [] (drop 5 s)
      else (case s of [] \<Rightarrow> [piece] | c # cs \<Rightarrow> re_split_headings (piece @ [c]) cs))"
  by pat_completeness auto
termination
  by (relation "measure (\<lambda>(piece, s). length s)") (auto dest: prefix_length_le)

declare re_split_headings.simps [simp del]

fun before_blank_line :: "string \<Rightarrow> string" where
  \<comment> \<open>\<^verbatim>\<open>s.split('\n\n')[0]\<close>\<close>
  "before_blank_line (a # b # rest) =
     (if a = newline \<and> b = newline then [] else a # before_blank_line (b # rest))"
| "before_blank_line s = s"

section \<open>The fallback summary (\<^verbatim>\<open>_extract_keywords\<close>, \<^verbatim>\<open>_generate_summary\<close>)\<close>

definition common_words :: "string list" where
  "common_words = [''the'', ''and'', ''a'', ''to'', ''of'', ''in'', ''with'', ''for'', ''on'', ''is'',
     ''are'', ''you'', ''will'', ''be'']"

text \<open>
  A \<^verbatim>\<open>dict\<close> that is read in insertion order, as an association list with one entry per key.
\<close>

fun dict_get :: "('k \<times> 'v) list \<Rightarrow> 'k \<Rightarrow> 'v \<Rightarrow> 'v" where
  \<comment> \<open>\<^verbatim>\<open>d.get(k, default)\<close>\<close>
  "dict_get [] k dflt = dflt"
| "dict_get ((k', v) # d) k dflt = (if k' = k then v else dict_get d k dflt)"

fun dict_set :: "('k \<times> 'v) list \<Rightarrow> 'k \<Rightarrow> 'v \<Rightarrow> ('k \<times> 'v) list" where
  \<comment> \<open>\<^verbatim>\<open>d[k] = v\<close>: an existing key keeps its place, a new key goes last\<close>
  "dict_set [] k v = [(k, v)]"
| "dict_set ((k', v') # d) k v = (if k' = k then (k, v) # d else (k', v') # dict_set d k v)"

fun count_frequencies :: "(string \<times> nat) list \<Rightarrow> string list \<Rightarrow> (string \<times> nat) list" where
  \<comment> \<open>the loop \<^verbatim>\<open>for word in keywords: keyword_freq[word] = keyword_freq.get(word, 0) + 1\<close>\<close>
  "count_frequencies keyword_freq [] = keyword_freq"
| "count_frequencies keyword_freq (word # rest) =
     count_frequencies (dict_set keyword_freq word (dict_get keyword_freq word 0 + 1)) rest"

definition extract_keywords :: "string \<Rightarrow> string list" where
  "extract_keywords job_description =
     (let words = re_findall_words False (py_lower job_description);
          keywords = filter (\<lambda>word. word \<notin> set common_words \<and> length word > 3) words;
          keyword_freq = count_frequencies [] keywords;
          sorted_keywords = py_sorted_reverse snd keyword_freq
      in map fst (take (min 15 (length sorted_keywords)) sorted_keywords))"

definition generic_statement :: string where
  "generic_statement = '' Experienced professional with a track record of delivering high-quality results. Skilled in problem-solving and adapting to new challenges. Committed to continuous learning and professional growth.''"

fun relevant_loop ::
  "string list \<Rightarrow> (string \<times> nat) list \<Rightarrow> string list \<Rightarrow> (string \<times> nat) list" where
  \<comment> \<open>the loop over \<^verbatim>\<open>sections\<close> that fills \<^verbatim>\<open>relevant_experience\<close>\<close>
  "relevant_loop keywords relevant_experience [] = relevant_experience"
| "relevant_loop keywords relevant_experience (sect # rest) =
     (let keyword_count = length (filter (\<lambda>keyword. py_contains (py_lower sect) keyword) keywords)
      in if keyword_count > 0
         then relevant_loop keywords (relevant_experience @ [(sect, keyword_count)]) rest
         else relevant_loop keywords relevant_experience rest)"

fun summary_loop :: "string list \<Rightarrow> nat \<Rightarrow> (string \<times> nat) list \<Rightarrow> string list" where
  \<comment> \<open>the loop over the first three relevant sections, with \<^verbatim>\<open>max_length = 1500\<close>\<close>
  "summary_loop summary_parts total_length [] = summary_parts"
| "summary_loop summary_parts total_length ((sect, _) # rest) =
     (let first_para = py_strip (before_blank_line sect)
      in if total_length + length first_para \<le> 1500
         then summary_loop (summary_parts @ [first_para]) (total_length + length first_para) rest
         else summary_loop summary_parts total_length rest)"

definition generate_summary :: "ResumeMatcher \<Rightarrow> string \<Rightarrow> string list \<Rightarrow> string" where
  "generate_summary self job_description keywords =
     (let sections = re_split_headings [] (experience_data self);
          relevant_experience = py_sorted_reverse snd (relevant_loop keywords [] sections);
          summary_parts = summary_loop [] 0 (take 3 relevant_experience);
          text = py_join '' '' summary_parts
      in if length text < 100 then text @ generic_statement else text)"

section \<open>The synthesiser (\<^verbatim>\<open>generate_tailored_resume\<close>)\<close>

definition user_info_get :: "string option \<Rightarrow> string \<Rightarrow> string" where
  \<comment> \<open>\<^verbatim>\<open>user_info.get(key, default)\<close> on a string field\<close>
  "user_info_get field dflt = (case field of None \<Rightarrow> dflt | Some v \<Rightarrow> v)"

definition extract_sills :: "ResumeMatcher \<Rightarrow> string \<Rightarrow> py_exception + Skills" where
  \<comment> \<open>the prompt is a fixed text around the job description\<close>
  "extract_sills self job_description = skills_response self job_description"

definition skills_text :: "string list \<Rightarrow> string" where
  \<comment> \<open>\<^verbatim>\<open>'", "'.join(skill_names)\<close>\<close>
  "skills_text skill_names = py_join [dquote, CHR '','', CHR '' '', dquote] skill_names"

definition system_message :: "ResumeMatcher \<Rightarrow> string \<Rightarrow> Skills \<Rightarrow> nat \<Rightarrow> generation_request" where
  "system_message self job_description extracted num_experiences =
     \<lparr>gr_job_description = job_description,
      gr_user_profile = experience_data self,
      gr_hard_skills = skills_text (hard_skills extracted),
      gr_soft_skills = skills_text (soft_skills extracted),
      gr_num_experiences = num_experiences\<rparr>"

fun override_company_info ::
  "nat \<Rightarrow> EmploymentHistory list \<Rightarrow> Experience list \<Rightarrow> Experience list" where
  \<comment> \<open>the loop \<^verbatim>\<open>for index, job in enumerate(user_info["employment_history"])\<close>, from
      \<open>index\<close> on, with its \<^verbatim>\<open>break\<close>\<close>
  "override_company_info index [] exps = exps"
| "override_company_info index (job # jobs) exps =
     (if int index > int (length exps) - 1 then exps
      else override_company_info (Suc index) jobs
        (exps [index := (exps ! index)
           \<lparr>company_info := (company_info (exps ! index))
              \<lparr>ci_name := company_name job,
               ci_period := eh_period job,
               ci_location := eh_location job\<rparr>\<rparr>]))"

definition Education_of_dict :: "Education \<Rightarrow> Education" where
  \<comment> \<open>\<^verbatim>\<open>Education(**edu)\<close> on a dictionary that holds the four fields\<close>
  "Education_of_dict edu =
     \<lparr>university_name = university_name edu, edu_period = edu_period edu,
      edu_location = edu_location edu, degree = degree edu\<rparr>"

definition linkedin_profile :: "user_info \<Rightarrow> string" where
  "linkedin_profile ui =
     (case ui_linkedin ui of
        None \<Rightarrow> []
      | Some url \<Rightarrow>
          if url \<noteq> [] then ''<a href='' @ [dquote] @ url @ [dquote] @ ''>LinkedIn</a>'' else [])"

definition parsed_completion ::
  "ResumeMatcher \<Rightarrow> string \<Rightarrow> user_info \<Rightarrow> py_exception + ResumeData" where
  \<comment> \<open>the \<^verbatim>\<open>try\<close> block up to \<^verbatim>\<open>resume_data = completion.choices[0].message.parsed\<close>:
      \<^const>\<open>Inl\<close> is an exception raised on the way\<close>
  "parsed_completion self job_description ui =
     (case extract_sills self job_description of
        Inl e \<Rightarrow> Inl e
      | Inr extracted \<Rightarrow>
          (case ui_employment_history ui of
             None \<Rightarrow> Inl KeyError
           | Some history \<Rightarrow>
               resume_response self
                 (system_message self job_description extracted (length history))))"

definition tailored_resume_try ::
  "ResumeMatcher \<Rightarrow> string \<Rightarrow> user_info \<Rightarrow> py_exception + ResumeData" where
  \<comment> \<open>the whole \<^verbatim>\<open>try\<close> block; the assignments to \<^verbatim>\<open>resume_data.name\<close>, \<^verbatim>\<open>email\<close>,
      \<^verbatim>\<open>location\<close> and \<^verbatim>\<open>linkedin\<close> are left out, since the returned object reads only
      \<^verbatim>\<open>summary\<close>, \<^verbatim>\<open>experiences\<close> and \<^verbatim>\<open>skills\<close> of \<^verbatim>\<open>resume_data\<close>\<close>
  "tailored_resume_try self job_description ui =
     (case parsed_completion self job_description ui of
        Inl e \<Rightarrow> Inl e
      | Inr resume_data \<Rightarrow>
          (let employment_history_data = [];
               exps = (case ui_employment_history ui of
                         None \<Rightarrow> experiences resume_data
                       | Some history \<Rightarrow>
                           if history \<noteq> []
                           then override_company_info 0 history (experiences resume_data)
                           else experiences resume_data);
               education_data = (case ui_education ui of
                                   None \<Rightarrow> []
                                 | Some edus \<Rightarrow>
                                     if edus \<noteq> [] then map Education_of_dict edus else [])
           in Inr \<lparr>rd_name = user_info_get (ui_name ui) [],
                   rd_title = user_info_get (ui_title ui) [],
                   rd_email = user_info_get (ui_email ui) [],
                   rd_phone = user_info_get (ui_phone ui) [],
                   rd_location = user_info_get (ui_location ui) [],
                   rd_linkedin = Some (linkedin_profile ui),
                   summary = summary resume_data,
                   experiences = exps,
                   education = education_data,
                   employment_history = Some employment_history_data,
                   skills = skills resume_data\<rparr>))"

definition legacy_experience_1 :: Experience where
  "legacy_experience_1 =
    \<lparr>company_info = \<lparr>ci_name = ''Tech Innovators Inc.'', ci_period = ''01/2021 - 05/2025'', ci_location = ''New York, NY''\<rparr>,
     job_title = ''Senior AI Engineer'',
     bullet_points = [
       \<lparr>bullet_point = ''Engineered a supervisor-orchestrated multi-agent system on Azure, leveraging LangGraph's stateful execution capabilities, reducing data engineering development time by 40%.''\<rparr>,
       \<lparr>bullet_point = ''Fused agent systems with Azure OpenAI Service for sophisticated natural language understanding, enabling automated translation of Jira issues into optimized data pipeline code.''\<rparr>,
       \<lparr>bullet_point = ''Implemented multi-stage code validation within the LangGraph framework, incorporating unit tests and integration tests, reducing manual code review overhead by 70%.''\<rparr>,
       \<lparr>bullet_point = ''Enhanced contextual awareness by creating GraphRAG systems using Neo4j integrated with Azure AI Search, resulting in an 18% improvement in code generation accuracy.''\<rparr>,
       \<lparr>bullet_point = ''Defined and codified reusable domain-specific process definition libraries (PDLs) for rapid instantiation of pre-configured, industry-tailored agent workflows.''\<rparr>]\<rparr>"

definition legacy_experience_2 :: Experience where
  "legacy_experience_2 =
    \<lparr>company_info = \<lparr>ci_name = ''Intelligent Solutions Group'', ci_period = ''06/2018 - 12/2020'', ci_location = ''San Francisco, CA''\<rparr>,
     job_title = ''Technology Architecture Lead'',
     bullet_points = [
       \<lparr>bullet_point = ''Led architectural design and development of complex multi-agent AI systems using CrewAI and LangChain, enabling autonomous decision-making, resulting in 25% improvement in first-call resolution rates.''\<rparr>,
       \<lparr>bullet_point = ''Designed and implemented agent communication protocols using gRPC and RabbitMQ, ensuring robust and scalable inter-agent communication within customer service platforms.''\<rparr>,
       \<lparr>bullet_point = ''Developed belief-desire-intention (BDI) agent architectures within the CrewAI framework, optimizing for rapid response times and accurate information retrieval.''\<rparr>,
       \<lparr>bullet_point = ''Orchestrated deployment of agentic AI solutions on Microsoft Azure using Kubernetes and AKS, ensuring scalability and fault tolerance.''\<rparr>,
       \<lparr>bullet_point = ''Provided technical leadership to a team of 9 AI engineers, fostering expertise in agent-based modeling and multi-agent system design.''\<rparr>]\<rparr>"

definition legacy_experience_3 :: Experience where
  "legacy_experience_3 =
    \<lparr>company_info = \<lparr>ci_name = ''Communication Systems Inc.'', ci_period = ''01/2016 - 05/2018'', ci_location = ''Boston, MA''\<rparr>,
     job_title = ''Python Developer'',
     bullet_points = [
       \<lparr>bullet_point = ''Developed robust backend systems using Python and Flask framework to automate configuration and management of contact center deployments, streamlining setup processes.''\<rparr>,
       \<lparr>bullet_point = ''Integrated systems with programmable communications APIs via RESTful interfaces, enabling programmatic control over contact center features and workflows.''\<rparr>,
       \<lparr>bullet_point = ''Implemented core automation logic using Python, leveraging requests library for API interaction and SQLAlchemy for database operations.''\<rparr>,
       \<lparr>bullet_point = ''Designed and implemented message queue-based task management systems using RabbitMQ and pika, enabling asynchronous processing of configuration tasks.''\<rparr>,
       \<lparr>bullet_point = ''Created comprehensive testing suites using pytest, achieving 92% code coverage and reducing production incidents by 35%.''\<rparr>]\<rparr>"

definition legacy_generate_tailored_resume ::
  "ResumeMatcher \<Rightarrow> string \<Rightarrow> user_info \<Rightarrow> ResumeData" where
  "legacy_generate_tailored_resume self job_description ui =
     (let keywords = extract_keywords job_description;
          summary_text = generate_summary self job_description keywords
      in \<lparr>rd_name = user_info_get (ui_name ui) [],
          rd_title = user_info_get (ui_title ui) [],
          rd_email = user_info_get (ui_email ui) [],
          rd_phone = user_info_get (ui_phone ui) [],
          rd_location = user_info_get (ui_location ui) [],
          rd_linkedin = ui_linkedin ui,
          summary = summary_text,
          experiences = [legacy_experience_1, legacy_experience_2, legacy_experience_3],
          education = [],
          employment_history = Some [],
          skills = []\<rparr>)"

definition generate_tailored_resume ::
  "ResumeMatcher \<Rightarrow> string \<Rightarrow> user_info \<Rightarrow> py_exception + ResumeData" where
  \<comment> \<open>\<^const>\<open>Inr\<close> is a returned resume, \<^const>\<open>Inl\<close> an exception that reaches the caller\<close>
  "generate_tailored_resume self job_description ui =
     (case tailored_resume_try self job_description ui of
        Inr resume \<Rightarrow> Inr resume
      | Inl e \<Rightarrow> Inr (legacy_generate_tailored_resume self job_description ui))"

section \<open>The profile store (\<^verbatim>\<open>app.py\<close>)\<close>

text \<open>
  A profile file holds a JSON document. The store keeps the directories that exist and, for
  each path of a file, the document that \<^verbatim>\<open>json.load\<close> returns for the text that was
  written. Opening a path for writing raises when the directory that is to hold the file
  does not exist.
\<close>

datatype json =
  JNull | JBool bool | JInt int | JString string | JArray "json list"
| JObject "(string \<times> json) list"


















section \<open>The fallback summary as the specification words it\<close>

fun first_occurrences :: "'a list \<Rightarrow> 'a list" where
  \<comment> \<open>the distinct elements, each at its first position\<close>
  "first_occurrences [] = []"
| "first_occurrences (x # xs) = x # filter (\<lambda>y. y \<noteq> x) (first_occurrences xs)"

definition rank_descending :: "('a \<Rightarrow> nat) \<Rightarrow> 'a list \<Rightarrow> 'a list" where
  \<comment> \<open>highest score first; elements of equal score keep their order\<close>
  "rank_descending score xs = sort_key (\<lambda>x. - int (score x)) xs"

definition spec_keywords :: "string \<Rightarrow> string list" where
  \<comment> \<open>the top 15 words by frequency, without the stopwords and the words of length at most 3\<close>
  "spec_keywords job_description =
     (let kept = filter (\<lambda>w. w \<notin> set common_words \<and> \<not> length w \<le> 3)
                   (re_findall_words False (py_lower job_description))
      in take 15 (rank_descending (count_list kept) (first_occurrences kept)))"

definition keyword_score :: "string list \<Rightarrow> string \<Rightarrow> nat" where
  \<comment> \<open>the number of keywords that occur in the section, read in lower case\<close>
  "keyword_score keywords sect = length (filter (py_contains (py_lower sect)) keywords)"

definition first_paragraph :: "string \<Rightarrow> string" where
  "first_paragraph sect = py_strip (before_blank_line sect)"

fun within_budget :: "nat \<Rightarrow> string list \<Rightarrow> string list" where
  \<comment> \<open>the paragraphs that fit, in order, into what is left of the budget\<close>
  "within_budget budget [] = []"
| "within_budget budget (para # paras) =
     (if length para \<le> budget then para # within_budget (budget - length para) paras
      else within_budget budget paras)"

definition close_summary :: "string \<Rightarrow> string" where
  "close_summary text = (if length text < 100 then text @ generic_statement else text)"

definition spec_summary_as_stated :: "string \<Rightarrow> string \<Rightarrow> string" where
  \<comment> \<open>the top 3 of all sections by score\<close>
  "spec_summary_as_stated experience job_description =
     (let keywords = spec_keywords job_description;
          sections = re_split_headings [] experience;
          top = take 3 (rank_descending (keyword_score keywords) sections)
      in close_summary (py_join '' '' (within_budget 1500 (map first_paragraph top))))"

definition spec_summary :: "string \<Rightarrow> string \<Rightarrow> string" where
  \<comment> \<open>the top 3 of the sections in which a keyword occurs\<close>
  "spec_summary experience job_description =
     (let keywords = spec_keywords job_description;
          sections = filter (\<lambda>sect. 0 < keyword_score keywords sect)
                       (re_split_headings [] experience);
          top = take 3 (rank_descending (keyword_score keywords) sections)
      in close_summary (py_join '' '' (within_budget 1500 (map first_paragraph top))))"

definition coverage_text :: "ResumeData \<Rightarrow> string" where
  \<comment> \<open>the summary, all bullet points and the skills section, concatenated\<close>
  "coverage_text r =
     summary r @ concat (map bullet_point (concat (map bullet_points (experiences r))))
       @ concat (map (\<lambda>s. category s @ skill_list s) (skills r))"

definition skill_occurs :: "ResumeData \<Rightarrow> string \<Rightarrow> bool" where
  \<comment> \<open>a case-insensitive occurrence of the skill in that text\<close>
  "skill_occurs r skill = py_contains (py_lower (coverage_text r)) (py_lower skill)"

section \<open>Example inputs\<close>

definition acme_job :: EmploymentHistory where
  "acme_job = \<lparr>company_name = ''Acme'', eh_period = ''Jan 2020 - Dec 2022'', eh_location = ''Austin, TX''\<rparr>"

definition globex_job :: EmploymentHistory where
  "globex_job = \<lparr>company_name = ''Globex'', eh_period = ''Mar 2017 - Dec 2019'', eh_location = ''Reno, NV''\<rparr>"

definition state_university :: Education where
  "state_university =
     \<lparr>university_name = ''State University'', edu_period = ''2013-2017'',
      edu_location = ''Reno, NV'', degree = ''B.S. Computer Science''\<rparr>"

definition ann_info :: user_info where
  "ann_info =
     \<lparr>ui_name = Some ''Ann Lee'', ui_title = Some ''Data Engineer'',
      ui_email = Some ''ann@example.com'', ui_phone = Some ''555-0100'',
      ui_location = Some ''Austin, TX'', ui_linkedin = None,
      ui_education = Some [state_university],
      ui_employment_history = Some [acme_job, globex_job]\<rparr>"

definition invented_experience :: Experience where
  "invented_experience =
     \<lparr>company_info = \<lparr>ci_name = ''Invented Corp'', ci_period = ''2001 - 2002'', ci_location = ''Nowhere''\<rparr>,
      job_title = ''Lead Engineer'',
      bullet_points = [\<lparr>bullet_point = ''Cut batch run time by 30%.''\<rparr>]\<rparr>"

definition generated_resume :: ResumeData where
  \<comment> \<open>a parsed completion: other identity fields, one experience, no mention of a skill\<close>
  "generated_resume =
     \<lparr>rd_name = ''Jane Roe'', rd_title = ''Architect'', rd_email = ''jane@example.org'',
      rd_phone = ''555-0199'', rd_location = ''Boston, MA'', rd_linkedin = None,
      summary = ''Seasoned engineer.'',
      experiences = [invented_experience],
      education = [], employment_history = None,
      skills = [\<lparr>category = ''Tools'', skill_list = ''Spreadsheets''\<rparr>]\<rparr>"

definition python_skills :: Skills where
  "python_skills = \<lparr>hard_skills = [''Python''], soft_skills = []\<rparr>"

definition covering_resume :: ResumeData where
  \<comment> \<open>a parsed completion that mentions the skill\<close>
  "covering_resume = generated_resume\<lparr>summary := ''Seasoned Python engineer.''\<rparr>"

definition covering_matcher :: ResumeMatcher where
  "covering_matcher =
     \<lparr>experience_data = ''Cooking enthusiast'',
      skills_response = (\<lambda>_. Inr python_skills),
      resume_response = (\<lambda>_. Inr covering_resume)\<rparr>"

definition answering_matcher :: ResumeMatcher where
  \<comment> \<open>both calls of the client succeed\<close>
  "answering_matcher =
     \<lparr>experience_data = ''Cooking enthusiast'',
      skills_response = (\<lambda>_. Inr python_skills),
      resume_response = (\<lambda>_. Inr generated_resume)\<rparr>"

definition failing_matcher :: ResumeMatcher where
  \<comment> \<open>the generation call raises\<close>
  "failing_matcher =
     \<lparr>experience_data = ''Cooking enthusiast'',
      skills_response = (\<lambda>_. Inr python_skills),
      resume_response = (\<lambda>_. Inl GenerationError)\<rparr>"

definition sample_experience :: string where
  \<comment> \<open>an introduction and two sections under headings\<close>
  "sample_experience =
     ''Intro about python'' @ [newline] @ ''## Data work'' @ [newline] @
     ''Built python pipelines as developer.'' @ [newline, newline] @ ''More text'' @ [newline] @
     ''## Hobbies'' @ [newline] @ ''Cooking''"

definition sample_job_description :: string where
  "sample_job_description = ''Python developer wanted. Python is required for the role.''"

definition sample_matcher :: ResumeMatcher where
  \<comment> \<open>skill extraction raises\<close>
  "sample_matcher =
     \<lparr>experience_data = sample_experience,
      skills_response = (\<lambda>_. Inl GenerationError),
      resume_response = (\<lambda>_. Inl GenerationError)\<rparr>"




section \<open>The override loop\<close>

lemma override_company_info_length:
  "length (override_company_info k jobs exps) = length exps"
  by (induction jobs arbitrary: k exps) auto

lemma override_company_info_before:
  "i < k \<Longrightarrow> override_company_info k jobs exps ! i = exps ! i"
  by (induction jobs arbitrary: k exps) auto

lemma override_company_info_nth:
  "k \<le> i \<Longrightarrow> i < k + length jobs \<Longrightarrow> i < length exps \<Longrightarrow>
   company_info (override_company_info k jobs exps ! i) =
     \<lparr>ci_name = company_name (jobs ! (i - k)), ci_period = eh_period (jobs ! (i - k)),
      ci_location = eh_location (jobs ! (i - k))\<rparr>"
proof (induction jobs arbitrary: k exps)
  case Nil
  then show ?case by simp
next
  case (Cons job jobs)
  define exps' where "exps' = exps [k := (exps ! k)
           \<lparr>company_info := (company_info (exps ! k))
              \<lparr>ci_name := company_name job,
               ci_period := eh_period job,
               ci_location := eh_location job\<rparr>\<rparr>]"
  have len: "length exps' = length exps" by (simp add: exps'_def)
  have k: "k < length exps" using Cons.prems by simp
  then have step: "override_company_info k (job # jobs) exps = override_company_info (Suc k) jobs exps'"
    by (simp add: exps'_def)
  show ?case
  proof (cases "i = k")
    case True
    have "override_company_info (Suc k) jobs exps' ! k = exps' ! k"
      by (rule override_company_info_before) simp
    also have "company_info (exps' ! k) =
       \<lparr>ci_name = company_name job, ci_period = eh_period job, ci_location = eh_location job\<rparr>"
      using k by (simp add: exps'_def)
    finally show ?thesis using True step by simp
  next
    case False
    with Cons.prems have a: "Suc k \<le> i" "i < Suc k + length jobs" "i < length exps'"
      by (simp_all add: len)
    have b: "(job # jobs) ! (i - k) = jobs ! (i - Suc k)"
      using a(1) by (simp add: nth_Cons')
    show ?thesis
      unfolding step b by (rule Cons.IH [OF a])
  qed
qed

lemma map_update_same: "(map f xs)[k := f (xs ! k)] = map f xs"
  by (metis list_update_id map_update)

lemma override_company_info_bullets:
  "map bullet_points (override_company_info k jobs exps) = map bullet_points exps"
  by (induction jobs arbitrary: k exps) (auto simp: map_update map_update_same)

section \<open>The two paths of the synthesiser\<close>

lemma tailored_resume_try_parsed:
  assumes "parsed_completion self jd ui = Inr g"
  shows "tailored_resume_try self jd ui =
     Inr \<lparr>rd_name = user_info_get (ui_name ui) [],
          rd_title = user_info_get (ui_title ui) [],
          rd_email = user_info_get (ui_email ui) [],
          rd_phone = user_info_get (ui_phone ui) [],
          rd_location = user_info_get (ui_location ui) [],
          rd_linkedin = Some (linkedin_profile ui),
          summary = summary g,
          experiences = (case ui_employment_history ui of
                           None \<Rightarrow> experiences g
                         | Some history \<Rightarrow>
                             if history \<noteq> []
                             then override_company_info 0 history (experiences g)
                             else experiences g),
          education = (case ui_education ui of
                         None \<Rightarrow> []
                       | Some edus \<Rightarrow> if edus \<noteq> [] then map Education_of_dict edus else []),
          employment_history = Some [],
          skills = skills g\<rparr>"
  using assms by (simp add: tailored_resume_try_def)

lemma tailored_resume_try_failed:
  "parsed_completion self jd ui = Inl e \<Longrightarrow> tailored_resume_try self jd ui = Inl e"
  by (simp add: tailored_resume_try_def)

lemma extraction_failure:
  "extract_sills self jd = Inl e \<Longrightarrow> parsed_completion self jd ui = Inl e"
  by (simp add: parsed_completion_def)

lemma missing_history_failure:
  "extract_sills self jd = Inr extracted \<Longrightarrow> ui_employment_history ui = None \<Longrightarrow>
   parsed_completion self jd ui = Inl KeyError"
  by (simp add: parsed_completion_def)

lemma generation_failure:
  "extract_sills self jd = Inr extracted \<Longrightarrow> ui_employment_history ui = Some history \<Longrightarrow>
   resume_response self (system_message self jd extracted (length history)) = Inl e \<Longrightarrow>
   parsed_completion self jd ui = Inl e"
  by (simp add: parsed_completion_def)

lemma generate_on_primary_path:
  "parsed_completion self jd ui = Inr g \<Longrightarrow>
   generate_tailored_resume self jd ui = tailored_resume_try self jd ui"
  by (simp add: generate_tailored_resume_def tailored_resume_try_parsed)

lemma generate_on_fallback_path:
  "parsed_completion self jd ui = Inl e \<Longrightarrow>
   generate_tailored_resume self jd ui = Inr (legacy_generate_tailored_resume self jd ui)"
  by (simp add: generate_tailored_resume_def tailored_resume_try_failed)

lemma generic_statement_length: "length generic_statement = 198"
  by (simp add: generic_statement_def)

lemma generate_summary_nonempty: "generate_summary self jd keywords \<noteq> []"
proof -
  define joined where "joined = py_join '' ''
    (summary_loop [] 0
       (take 3 (py_sorted_reverse snd
          (relevant_loop keywords [] (re_split_headings [] (experience_data self))))))"
  have result: "generate_summary self jd keywords =
      (if length joined < 100 then joined @ generic_statement else joined)"
    unfolding generate_summary_def Let_def joined_def by (rule refl)
  have g: "generic_statement \<noteq> []"
    using generic_statement_length by auto
  show ?thesis
  proof (cases "length joined < 100")
    case True
    then show ?thesis unfolding result using g by simp
  next
    case False
    then have "joined \<noteq> []" by auto
    with False show ?thesis unfolding result by simp
  qed
qed

lemma Education_of_dict_id: "map Education_of_dict edus = edus"
  by (induction edus) (simp_all add: Education_of_dict_def)

text \<open>The example inputs, evaluated.\<close>

lemma answering_parsed:
  "parsed_completion answering_matcher jd ann_info = Inr generated_resume"
  by (simp add: parsed_completion_def extract_sills_def answering_matcher_def ann_info_def)

lemma failing_parsed:
  "parsed_completion failing_matcher jd ann_info = Inl GenerationError"
  by (simp add: parsed_completion_def extract_sills_def failing_matcher_def ann_info_def)

lemma Education_of_dict_same: "Education_of_dict edu = edu"
  by (simp add: Education_of_dict_def)

lemma answering_result:
  "generate_tailored_resume answering_matcher jd ann_info =
     Inr \<lparr>rd_name = ''Ann Lee'', rd_title = ''Data Engineer'', rd_email = ''ann@example.com'',
          rd_phone = ''555-0100'', rd_location = ''Austin, TX'', rd_linkedin = Some [],
          summary = ''Seasoned engineer.'',
          experiences = [invented_experience
             \<lparr>company_info := \<lparr>ci_name = ''Acme'', ci_period = ''Jan 2020 - Dec 2022'',
                                ci_location = ''Austin, TX''\<rparr>\<rparr>],
          education = [state_university], employment_history = Some [],
          skills = [\<lparr>category = ''Tools'', skill_list = ''Spreadsheets''\<rparr>]\<rparr>"
  by (simp add: generate_on_primary_path [OF answering_parsed]
      tailored_resume_try_parsed [OF answering_parsed] Education_of_dict_id)
     (simp add: ann_info_def user_info_get_def linkedin_profile_def generated_resume_def
      acme_job_def globex_job_def Education_of_dict_same)

lemma no_history_parsed:
  "parsed_completion answering_matcher jd (ann_info\<lparr>ui_employment_history := Some []\<rparr>) =
     Inr generated_resume"
  by (simp add: parsed_completion_def extract_sills_def answering_matcher_def)

lemma primary_path_experiences:
  assumes "parsed_completion self jd ui = Inr g"
  shows "\<exists>r. generate_tailored_resume self jd ui = Inr r \<and>
     experiences r = (case ui_employment_history ui of
                        None \<Rightarrow> experiences g
                      | Some history \<Rightarrow>
                          if history \<noteq> []
                          then override_company_info 0 history (experiences g)
                          else experiences g) \<and>
     summary r = summary g \<and> skills r = skills g"
  using assms by (simp add: generate_on_primary_path tailored_resume_try_parsed)

lemma primary_path_education:
  assumes "parsed_completion self jd ui = Inr g"
  shows "\<exists>r. generate_tailored_resume self jd ui = Inr r \<and>
     education r = (case ui_education ui of None \<Rightarrow> [] | Some edus \<Rightarrow> edus)"
  using assms
  by (simp add: generate_on_primary_path tailored_resume_try_parsed Education_of_dict_id
      split: option.split)

lemma employment_history_field_empty:
  "\<exists>r. generate_tailored_resume self jd ui = Inr r \<and> employment_history r = Some []"
proof (cases "parsed_completion self jd ui")
  case (Inl e)
  then show ?thesis
    by (simp add: generate_on_fallback_path legacy_generate_tailored_resume_def Let_def)
next
  case (Inr g)
  then show ?thesis
    by (simp add: generate_on_primary_path tailored_resume_try_parsed)
qed

section \<open>The stored document\<close>





section \<open>The fallback summary: loops against their closed forms\<close>

lemma insort_key_map:
  "insort_key f (g x) (map g ys) = map g (insort_key (\<lambda>y. f (g y)) x ys)"
  by (induction ys) simp_all

lemma sort_key_map: "sort_key f (map g xs) = map g (sort_key (\<lambda>x. f (g x)) xs)"
  by (induction xs) (simp_all add: insort_key_map)

lemma py_sorted_reverse_rank: "py_sorted_reverse f xs = rank_descending f xs"
proof -
  let ?ys = "rev (sort_key f (rev xs))"
  let ?g = "\<lambda>x. - int (f x)"
  have "sort_key ?g xs = ?ys"
  proof (rule properties_for_sort_key)
    show "mset ?ys = mset xs" by simp
  next
    fix k
    have "filter (\<lambda>x. ?g k = ?g x) ?ys = rev (filter (\<lambda>y. f y = f k) (sort_key f (rev xs)))"
      by (simp add: rev_filter eq_commute)
    also have "\<dots> = rev (filter (\<lambda>y. f y = f k) (rev xs))"
      by (simp only: sort_key_stable)
    also have "\<dots> = filter (\<lambda>x. ?g k = ?g x) xs"
      by (simp add: rev_filter eq_commute)
    finally show "filter (\<lambda>x. ?g k = ?g x) ?ys = filter (\<lambda>x. ?g k = ?g x) xs" .
  next
    have "sorted (map f (sort_key f (rev xs)))" by (rule sorted_sort_key)
    then have "sorted_wrt (\<lambda>x y. f x \<le> f y) (sort_key f (rev xs))"
      by (simp add: sorted_map)
    then have "sorted_wrt (\<lambda>x y. ?g y \<le> ?g x) (sort_key f (rev xs))"
      by simp
    then show "sorted (map ?g ?ys)"
      by (simp add: sorted_map sorted_wrt_rev)
  qed
  then show ?thesis
    by (simp add: py_sorted_reverse_def rank_descending_def)
qed

lemma rank_descending_pairs:
  "rank_descending snd (map (\<lambda>x. (x, c x)) xs) = map (\<lambda>x. (x, c x)) (rank_descending c xs)"
  by (simp add: rank_descending_def sort_key_map)

lemma dict_bump_present:
  "distinct (map fst d) \<Longrightarrow> w \<in> fst ` set d \<Longrightarrow>
   dict_set d w (dict_get d w 0 + 1) =
     map (\<lambda>(v, c). (v, if v = w then Suc c else c)) (d :: ('k \<times> nat) list)"
proof (induction d)
  case Nil
  then show ?case by simp
next
  case (Cons p d)
  obtain k c where p: "p = (k, c)" by (cases p)
  show ?case
  proof (cases "k = w")
    case True
    with Cons.prems p have "w \<notin> fst ` set d" by auto
    then have "map (\<lambda>(v, c). (v, if v = w then Suc c else c)) d = d"
      by (induction d) auto
    with True p show ?thesis by simp
  next
    case False
    with Cons p show ?thesis by auto
  qed
qed

lemma dict_bump_absent:
  "w \<notin> fst ` set d \<Longrightarrow> dict_set d w (dict_get d w 0 + 1) = d @ [(w, 1 :: nat)]"
  by (induction d) auto

lemma key_in_dict: "(w, b) \<in> set d \<Longrightarrow> w \<in> fst ` set d"
  by force

lemma count_frequencies_general:
  "distinct (map fst d) \<Longrightarrow>
   count_frequencies d ws =
     map (\<lambda>(v, c). (v, c + count_list ws v)) d @
     map (\<lambda>v. (v, count_list ws v)) (filter (\<lambda>v. v \<notin> fst ` set d) (first_occurrences ws))"
proof (induction ws arbitrary: d)
  case Nil
  then show ?case by simp
next
  case (Cons w ws)
  show ?case
  proof (cases "w \<in> fst ` set d")
    case True
    let ?d = "map (\<lambda>(v, c). (v, if v = w then Suc c else c)) d"
    have step: "dict_set d w (dict_get d w 0 + 1) = ?d"
      using Cons.prems True by (rule dict_bump_present)
    have keys: "map fst ?d = map fst d" by (induction d) auto
    then have keys': "fst ` set ?d = fst ` set d" by (metis list.set_map)
    have dist: "distinct (map fst ?d)" unfolding keys by (rule Cons.prems)
    have a: "map (\<lambda>(v, c). (v, c + count_list ws v)) ?d =
          map (\<lambda>(v, c). (v, c + count_list (w # ws) v)) d"
      by (induction d) auto
    have b: "filter (\<lambda>v. v \<notin> fst ` set d) (first_occurrences (w # ws)) =
          filter (\<lambda>v. v \<notin> fst ` set d) (first_occurrences ws)"
      using True by (auto intro: filter_cong)
    have c: "map (\<lambda>v. (v, count_list (w # ws) v))
              (filter (\<lambda>v. v \<notin> fst ` set d) (first_occurrences ws)) =
          map (\<lambda>v. (v, count_list ws v))
              (filter (\<lambda>v. v \<notin> fst ` set d) (first_occurrences ws))"
      using True by (auto intro!: map_cong)
    show ?thesis
      using Cons.IH [OF dist] by (simp only: count_frequencies.simps step keys' a b c)
  next
    case False
    let ?d = "d @ [(w, 1)]"
    have step: "dict_set d w (dict_get d w 0 + 1) = ?d"
      using False by (rule dict_bump_absent)
    have "w \<notin> set (map fst d)" using False by simp
    then have dist: "distinct (map fst ?d)" using Cons.prems by simp
    have a: "map (\<lambda>(v, c). (v, c + count_list ws v)) d =
          map (\<lambda>(v, c). (v, c + count_list (w # ws) v)) d"
      using False by (auto intro!: map_cong dest: key_in_dict)
    have b: "filter (\<lambda>v. v \<notin> fst ` set ?d) (first_occurrences ws) =
          filter (\<lambda>v. v \<notin> fst ` set d) (filter (\<lambda>y. y \<noteq> w) (first_occurrences ws))"
      by (auto intro: filter_cong)
    have c: "map (\<lambda>v. (v, count_list ws v))
              (filter (\<lambda>v. v \<notin> fst ` set d) (filter (\<lambda>y. y \<noteq> w) (first_occurrences ws))) =
          map (\<lambda>v. (v, count_list (w # ws) v))
              (filter (\<lambda>v. v \<notin> fst ` set d) (filter (\<lambda>y. y \<noteq> w) (first_occurrences ws)))"
      by (auto intro!: map_cong)
    have "count_frequencies d (w # ws) = count_frequencies ?d ws"
      by (simp only: count_frequencies.simps step)
    also have "\<dots> = map (\<lambda>(v, c). (v, c + count_list ws v)) ?d @
       map (\<lambda>v. (v, count_list ws v)) (filter (\<lambda>v. v \<notin> fst ` set ?d) (first_occurrences ws))"
      by (rule Cons.IH [OF dist])
    also have "\<dots> = map (\<lambda>(v, c). (v, c + count_list (w # ws) v)) d @
       (w, count_list (w # ws) w) #
       map (\<lambda>v. (v, count_list (w # ws) v))
         (filter (\<lambda>v. v \<notin> fst ` set d) (filter (\<lambda>y. y \<noteq> w) (first_occurrences ws)))"
      unfolding b c using a by simp
    also have "\<dots> = map (\<lambda>(v, c). (v, c + count_list (w # ws) v)) d @
       map (\<lambda>v. (v, count_list (w # ws) v))
         (filter (\<lambda>v. v \<notin> fst ` set d) (first_occurrences (w # ws)))"
      using False by simp
    finally show ?thesis .
  qed
qed

lemma count_frequencies_counts:
  "count_frequencies [] ws = map (\<lambda>v. (v, count_list ws v)) (first_occurrences ws)"
  using count_frequencies_general [of "[]" ws] by simp

lemma take_min_length: "take (min n (length xs)) xs = take n xs"
  by (simp add: min_def)

lemma extract_keywords_spec: "extract_keywords jd = spec_keywords jd"
proof -
  have f: "(\<lambda>word. word \<notin> set common_words \<and> 3 < length word) =
           (\<lambda>w. w \<notin> set common_words \<and> \<not> length w \<le> 3)"
    by auto
  show ?thesis
    unfolding extract_keywords_def spec_keywords_def Let_def f
    by (simp add: py_sorted_reverse_rank count_frequencies_counts rank_descending_pairs
        take_map comp_def take_min_length)
qed

lemma relevant_loop_filter:
  "relevant_loop keywords acc sections =
     acc @ map (\<lambda>s. (s, keyword_score keywords s))
             (filter (\<lambda>s. 0 < keyword_score keywords s) sections)"
  by (induction sections arbitrary: acc) (simp_all add: keyword_score_def Let_def)

lemma summary_loop_budget:
  "used \<le> 1500 \<Longrightarrow>
   summary_loop parts used pairs =
     parts @ within_budget (1500 - used) (map (\<lambda>p. first_paragraph (fst p)) pairs)"
proof (induction pairs arbitrary: parts used)
  case Nil
  then show ?case by simp
next
  case (Cons p pairs)
  obtain s c where p: "p = (s, c)" by (cases p)
  show ?case
  proof (cases "used + length (first_paragraph s) \<le> 1500")
    case True
    then have "summary_loop parts used (p # pairs) =
        summary_loop (parts @ [first_paragraph s]) (used + length (first_paragraph s)) pairs"
      by (simp add: p first_paragraph_def Let_def)
    also have "\<dots> = (parts @ [first_paragraph s]) @
        within_budget (1500 - (used + length (first_paragraph s)))
          (map (\<lambda>p. first_paragraph (fst p)) pairs)"
      by (rule Cons.IH [OF True])
    finally show ?thesis using True Cons.prems by (simp add: p)
  next
    case False
    then have "summary_loop parts used (p # pairs) = summary_loop parts used pairs"
      by (simp add: p first_paragraph_def Let_def)
    also have "\<dots> = parts @ within_budget (1500 - used)
          (map (\<lambda>p. first_paragraph (fst p)) pairs)"
      by (rule Cons.IH [OF Cons.prems])
    finally show ?thesis using False Cons.prems by (simp add: p)
  qed
qed

lemma generate_summary_spec:
  "generate_summary self jd keywords =
     close_summary (py_join '' '' (within_budget 1500 (map first_paragraph
       (take 3 (rank_descending (keyword_score keywords)
          (filter (\<lambda>sect. 0 < keyword_score keywords sect)
             (re_split_headings [] (experience_data self))))))))"
  unfolding generate_summary_def Let_def close_summary_def
  by (simp add: py_sorted_reverse_rank relevant_loop_filter rank_descending_pairs take_map
      summary_loop_budget comp_def)

lemma legacy_summary:
  "summary (legacy_generate_tailored_resume self jd ui) =
     generate_summary self jd (extract_keywords jd)"
  by (simp add: legacy_generate_tailored_resume_def Let_def)

text \<open>The sample input, evaluated.\<close>

lemma sample_code_summary:
  "generate_summary sample_matcher sample_job_description
     (extract_keywords sample_job_description) =
   ''Data work'' @ [newline] @ ''Built python pipelines as developer. Intro about python''
     @ generic_statement"
  by code_simp

lemma sample_stated_summary:
  "spec_summary_as_stated sample_experience sample_job_description =
   ''Data work'' @ [newline] @ ''Built python pipelines as developer. Intro about python Hobbies''
     @ [newline] @ ''Cooking'' @ generic_statement"
  by code_simp

lemma sample_experience_data: "experience_data sample_matcher = sample_experience"
  by (simp add: sample_matcher_def)




lemma covering_parsed:
  "parsed_completion covering_matcher jd ann_info = Inr covering_resume"
  by (simp add: parsed_completion_def extract_sills_def covering_matcher_def ann_info_def)

lemma covering_occurs: "skill_occurs covering_resume ''Python''"
  by code_simp

section \<open>Claims about the synthesiser\<close>

text \<open>
  Claim C3. On every call, primary path or fallback, the returned resume's name, email and
  location are the values of \<^verbatim>\<open>user_info\<close> (the empty string for an absent key), whatever
  the generation call returned.
\<close>

theorem identity_fields_from_user_info:
  "\<exists>r. generate_tailored_resume self jd ui = Inr r \<and>
       rd_name r = user_info_get (ui_name ui) [] \<and>
       rd_email r = user_info_get (ui_email ui) [] \<and>
       rd_location r = user_info_get (ui_location ui) []"
proof (cases "parsed_completion self jd ui")
  case (Inl e)
  then show ?thesis
    by (simp add: generate_on_fallback_path legacy_generate_tailored_resume_def Let_def)
next
  case (Inr g)
  then show ?thesis
    by (simp add: generate_on_primary_path tailored_resume_try_parsed)
qed

theorem identity_fields_from_user_info_witness:
  "\<exists>r. generate_tailored_resume answering_matcher ''Python developer'' ann_info = Inr r \<and>
       rd_name r = ''Ann Lee'' \<and> rd_email r = ''ann@example.com'' \<and>
       rd_location r = ''Austin, TX'' \<and> rd_name generated_resume = ''Jane Roe''"
  using identity_fields_from_user_info [of answering_matcher "''Python developer''" ann_info]
  by (simp add: user_info_get_def ann_info_def generated_resume_def)

text \<open>
  Claim C10. On every call, primary path or fallback, the returned resume's title and phone
  are the values of \<^verbatim>\<open>user_info\<close> (the empty string for an absent key), whatever the
  generation call returned.
\<close>

theorem title_phone_from_user_info:
  "\<exists>r. generate_tailored_resume self jd ui = Inr r \<and>
       rd_title r = user_info_get (ui_title ui) [] \<and>
       rd_phone r = user_info_get (ui_phone ui) []"
proof (cases "parsed_completion self jd ui")
  case (Inl e)
  then show ?thesis
    by (simp add: generate_on_fallback_path legacy_generate_tailored_resume_def Let_def)
next
  case (Inr g)
  then show ?thesis
    by (simp add: generate_on_primary_path tailored_resume_try_parsed)
qed

theorem title_phone_from_user_info_witness:
  "\<exists>r. generate_tailored_resume answering_matcher ''Python developer'' ann_info = Inr r \<and>
       rd_title r = ''Data Engineer'' \<and> rd_phone r = ''555-0100'' \<and>
       rd_title generated_resume = ''Architect''"
  using title_phone_from_user_info [of answering_matcher "''Python developer''" ann_info]
  by (simp add: user_info_get_def ann_info_def generated_resume_def)

text \<open>
  Claim C4. \<^verbatim>\<open>generate_tailored_resume\<close> always returns a resume and raises nothing; when
  skill extraction or the generation call fails, the resume it returns has a non-empty
  summary and exactly the three fixed experience entries.
\<close>

theorem fallback_always_returns:
  "(\<exists>r. generate_tailored_resume self jd ui = Inr r) \<and>
   (parsed_completion self jd ui = Inl e \<longrightarrow>
      (\<exists>r. generate_tailored_resume self jd ui = Inr r \<and> summary r \<noteq> [] \<and>
           experiences r = [legacy_experience_1, legacy_experience_2, legacy_experience_3] \<and>
           length (experiences r) = 3))"
proof (cases "parsed_completion self jd ui")
  case (Inl e')
  then show ?thesis
    by (simp add: generate_on_fallback_path legacy_generate_tailored_resume_def Let_def
        generate_summary_nonempty)
next
  case (Inr g)
  then show ?thesis
    by (simp add: generate_on_primary_path tailored_resume_try_parsed)
qed

theorem fallback_always_returns_witness:
  "parsed_completion failing_matcher ''Python developer'' ann_info = Inl GenerationError \<and>
   (\<exists>r. generate_tailored_resume failing_matcher ''Python developer'' ann_info = Inr r \<and>
        summary r \<noteq> [] \<and>
        experiences r = [legacy_experience_1, legacy_experience_2, legacy_experience_3] \<and>
        length (experiences r) = 3)"
  using fallback_always_returns [of failing_matcher "''Python developer''" ann_info GenerationError]
    failing_parsed [of "''Python developer''"]
  by simp

text \<open>
  Claim C1, as stated: with an employment history of length \<open>n\<close>, every index \<open>i < n\<close> of the
  returned experiences carries the company information of \<open>employment_history[i]\<close>. It
  fails when the generation call returns fewer experiences than \<open>n\<close>: with two jobs in the
  history and one generated experience, the returned resume has one experience, so index 1
  has none.
\<close>

theorem employer_override_counterexample:
  "parsed_completion answering_matcher ''Python developer'' ann_info = Inr generated_resume \<and>
   ui_employment_history ann_info = Some [acme_job, globex_job] \<and>
   map company_info
     (experiences (projr (generate_tailored_resume answering_matcher ''Python developer'' ann_info)))
     = [\<lparr>ci_name = ''Acme'', ci_period = ''Jan 2020 - Dec 2022'', ci_location = ''Austin, TX''\<rparr>]"
  by (simp add: answering_parsed answering_result) (simp add: ann_info_def)

text \<open>
  Claim C1, amended. On the primary path the returned resume has as many experiences as the
  generation call returned, and for every index \<open>i\<close> below both that number and the length
  of the employment history, \<open>experiences[i].company_info\<close> is \<open>employment_history[i]\<close> in
  name, period and location, whatever the generation call returned there.
\<close>

theorem employer_override_up_to_generated:
  assumes "parsed_completion self jd ui = Inr g"
    and "ui_employment_history ui = Some history"
    and "i < min (length history) (length (experiences g))"
  shows "\<exists>r. generate_tailored_resume self jd ui = Inr r \<and>
     length (experiences r) = length (experiences g) \<and>
     company_info (experiences r ! i) =
       \<lparr>ci_name = company_name (history ! i), ci_period = eh_period (history ! i),
        ci_location = eh_location (history ! i)\<rparr>"
proof -
  from assms(3) have nonempty: "history \<noteq> []" by auto
  obtain r where r: "generate_tailored_resume self jd ui = Inr r"
    and exps: "experiences r = override_company_info 0 history (experiences g)"
    using primary_path_experiences [OF assms(1)] assms(2) nonempty by auto
  have "company_info (override_company_info 0 history (experiences g) ! i) =
       \<lparr>ci_name = company_name (history ! (i - 0)), ci_period = eh_period (history ! (i - 0)),
        ci_location = eh_location (history ! (i - 0))\<rparr>"
    by (rule override_company_info_nth) (use assms(3) in simp_all)
  with r exps show ?thesis
    by (simp add: override_company_info_length)
qed

theorem employer_override_up_to_generated_witness:
  "\<exists>r. generate_tailored_resume answering_matcher ''Python developer'' ann_info = Inr r \<and>
     length (experiences r) = 1 \<and>
     company_info (experiences r ! 0) =
       \<lparr>ci_name = ''Acme'', ci_period = ''Jan 2020 - Dec 2022'', ci_location = ''Austin, TX''\<rparr>"
proof -
  have h: "ui_employment_history ann_info = Some [acme_job, globex_job]"
    by (simp add: ann_info_def)
  have i: "0 < min (length [acme_job, globex_job]) (length (experiences generated_resume))"
    by (simp add: generated_resume_def)
  show ?thesis
    using employer_override_up_to_generated [OF answering_parsed h i, of "''Python developer''"]
    by (simp add: generated_resume_def acme_job_def)
qed

text \<open>
  Claim C2, as stated: on the primary path every extracted skill occurs, case-insensitively,
  in the summary, bullet points and skills section of the returned resume. It fails when
  the generation call returns a text without the skill: the code checks nothing.
\<close>

theorem skill_coverage_counterexample:
  "parsed_completion answering_matcher ''Python developer'' ann_info = Inr generated_resume \<and>
   extract_sills answering_matcher ''Python developer'' = Inr python_skills \<and>
   hard_skills python_skills = [''Python''] \<and>
   \<not> skill_occurs
       (projr (generate_tailored_resume answering_matcher ''Python developer'' ann_info))
       ''Python''"
proof -
  have "\<not> py_contains
     (py_lower (''Seasoned engineer.'' @ ''Cut batch run time by 30%.'' @ ''ToolsSpreadsheets''))
     (py_lower ''Python'')"
    by code_simp
  then show ?thesis
    by (simp add: answering_parsed answering_result skill_occurs_def coverage_text_def
        invented_experience_def)
       (simp add: extract_sills_def answering_matcher_def python_skills_def)
qed

text \<open>
  Claim C2, amended. On the primary path the summary, the bullet points of every experience
  and the skills section of the returned resume are those the generation call returned, so
  an extracted skill occurs in the returned resume exactly when it occurs in what the call
  returned.
\<close>

theorem skill_coverage_as_generated:
  assumes "parsed_completion self jd ui = Inr g"
    and "extract_sills self jd = Inr extracted"
    and "skill \<in> set (hard_skills extracted @ soft_skills extracted)"
  shows "\<exists>r. generate_tailored_resume self jd ui = Inr r \<and>
     summary r = summary g \<and>
     map bullet_points (experiences r) = map bullet_points (experiences g) \<and>
     skills r = skills g \<and>
     coverage_text r = coverage_text g \<and> skill_occurs r skill = skill_occurs g skill"
proof -
  obtain r where r: "generate_tailored_resume self jd ui = Inr r"
    and exps: "experiences r = (case ui_employment_history ui of
                        None \<Rightarrow> experiences g
                      | Some history \<Rightarrow>
                          if history \<noteq> []
                          then override_company_info 0 history (experiences g)
                          else experiences g)"
    and rest: "summary r = summary g" "skills r = skills g"
    using primary_path_experiences [OF assms(1)] by auto
  have bullets: "map bullet_points (experiences r) = map bullet_points (experiences g)"
    unfolding exps by (simp add: override_company_info_bullets split: option.split)
  with rest have "coverage_text r = coverage_text g"
    by (simp add: coverage_text_def)
  with r rest bullets show ?thesis by (simp add: skill_occurs_def)
qed

theorem skill_coverage_as_generated_witness:
  "''Python'' \<in> set (hard_skills python_skills @ soft_skills python_skills) \<and>
   (\<exists>r. generate_tailored_resume covering_matcher ''Python developer'' ann_info = Inr r \<and>
     summary r = ''Seasoned Python engineer.'' \<and>
     map bullet_points (experiences r) = [[\<lparr>bullet_point = ''Cut batch run time by 30%.''\<rparr>]] \<and>
     skills r = [\<lparr>category = ''Tools'', skill_list = ''Spreadsheets''\<rparr>] \<and>
     skill_occurs r ''Python'')"
proof -
  have e: "extract_sills covering_matcher ''Python developer'' = Inr python_skills"
    by (simp add: extract_sills_def covering_matcher_def)
  have s: "''Python'' \<in> set (hard_skills python_skills @ soft_skills python_skills)"
    by (simp add: python_skills_def)
  obtain r where r: "generate_tailored_resume covering_matcher ''Python developer'' ann_info = Inr r"
    and parts: "summary r = summary covering_resume"
      "map bullet_points (experiences r) = map bullet_points (experiences covering_resume)"
      "skills r = skills covering_resume"
    and occurs: "skill_occurs r ''Python'' = skill_occurs covering_resume ''Python''"
    using skill_coverage_as_generated [OF covering_parsed e s] by (elim exE conjE)
  have "summary r = ''Seasoned Python engineer.''"
    and "map bullet_points (experiences r) = [[\<lparr>bullet_point = ''Cut batch run time by 30%.''\<rparr>]]"
    and "skills r = [\<lparr>category = ''Tools'', skill_list = ''Spreadsheets''\<rparr>]"
    unfolding parts
    by (simp_all add: covering_resume_def generated_resume_def invented_experience_def)
  moreover have "skill_occurs r ''Python''"
    unfolding occurs by (rule covering_occurs)
  ultimately have
    "generate_tailored_resume covering_matcher ''Python developer'' ann_info = Inr r \<and>
     summary r = ''Seasoned Python engineer.'' \<and>
     map bullet_points (experiences r) = [[\<lparr>bullet_point = ''Cut batch run time by 30%.''\<rparr>]] \<and>
     skills r = [\<lparr>category = ''Tools'', skill_list = ''Spreadsheets''\<rparr>] \<and>
     skill_occurs r ''Python''"
    using r by (intro conjI)
  then have
    "\<exists>r. generate_tailored_resume covering_matcher ''Python developer'' ann_info = Inr r \<and>
     summary r = ''Seasoned Python engineer.'' \<and>
     map bullet_points (experiences r) = [[\<lparr>bullet_point = ''Cut batch run time by 30%.''\<rparr>]] \<and>
     skills r = [\<lparr>category = ''Tools'', skill_list = ''Spreadsheets''\<rparr>] \<and>
     skill_occurs r ''Python''"
    by (rule exI [where x = r])
  with s show ?thesis by (rule conjI)
qed

text \<open>
  Claim C5 at a failing input: the generation call raises, the profile has one education
  entry, and the resume returned by the fallback has an empty education list.
\<close>

theorem fallback_drops_education:
  "ui_education ann_info = Some [state_university] \<and>
   parsed_completion failing_matcher ''Python developer'' ann_info = Inl GenerationError \<and>
   education (projr (generate_tailored_resume failing_matcher ''Python developer'' ann_info)) = []"
  by (simp add: failing_parsed generate_on_fallback_path [OF failing_parsed]
      legacy_generate_tailored_resume_def Let_def)
     (simp add: ann_info_def)

text \<open>
  Claim C9 at a failing input: the profile has two jobs, and the \<open>employment_history\<close> of the
  returned resume is empty on the primary path and on the fallback.
\<close>

theorem employment_history_not_echoed:
  "ui_employment_history ann_info = Some [acme_job, globex_job] \<and>
   employment_history
     (projr (generate_tailored_resume answering_matcher ''Python developer'' ann_info)) = Some [] \<and>
   employment_history
     (projr (generate_tailored_resume failing_matcher ''Python developer'' ann_info)) = Some []"
  by (simp add: answering_result generate_on_fallback_path [OF failing_parsed]
      legacy_generate_tailored_resume_def Let_def)
     (simp add: ann_info_def)

text \<open>
  Claim C6, as stated: a primary-path synthesis returns exactly \<open>n\<close> experiences for a history
  of length \<open>n > 0\<close>, and the fallback with its three entries is taken when \<open>n = 0\<close>. It fails
  on both counts: with \<open>n = 2\<close> and one generated experience the result has one entry, and
  with \<open>n = 0\<close> the primary path is taken and the result again has the one generated entry.
\<close>

theorem experience_count_counterexample:
  "(ui_employment_history ann_info = Some [acme_job, globex_job] \<and>
    parsed_completion answering_matcher ''Python developer'' ann_info = Inr generated_resume \<and>
    length (experiences
      (projr (generate_tailored_resume answering_matcher ''Python developer'' ann_info))) = 1) \<and>
   (parsed_completion answering_matcher ''Python developer''
      (ann_info\<lparr>ui_employment_history := Some []\<rparr>) = Inr generated_resume \<and>
    length (experiences
      (projr (generate_tailored_resume answering_matcher ''Python developer''
         (ann_info\<lparr>ui_employment_history := Some []\<rparr>)))) = 1)"
proof -
  have "\<exists>r. generate_tailored_resume answering_matcher ''Python developer''
         (ann_info\<lparr>ui_employment_history := Some []\<rparr>) = Inr r \<and>
       experiences r = experiences generated_resume"
    using primary_path_experiences [OF no_history_parsed, of "''Python developer''"] by auto
  then have "length (experiences
      (projr (generate_tailored_resume answering_matcher ''Python developer''
         (ann_info\<lparr>ui_employment_history := Some []\<rparr>)))) = 1"
    by (auto simp: generated_resume_def)
  then show ?thesis
    by (simp add: answering_parsed answering_result no_history_parsed) (simp add: ann_info_def)
qed

text \<open>
  Claim C6, amended. When the generation call returns, for any \<open>n\<close>, the returned resume has
  as many experiences as the call returned; when skill extraction or the generation call
  fails, the returned resume has exactly 3 experiences.
\<close>

theorem experience_count_as_generated:
  "(parsed_completion self jd ui = Inr g \<longrightarrow>
      (\<exists>r. generate_tailored_resume self jd ui = Inr r \<and>
           length (experiences r) = length (experiences g))) \<and>
   (parsed_completion self jd ui = Inl e \<longrightarrow>
      (\<exists>r. generate_tailored_resume self jd ui = Inr r \<and> length (experiences r) = 3))"
proof (intro conjI impI)
  assume p: "parsed_completion self jd ui = Inr g"
  show "\<exists>r. generate_tailored_resume self jd ui = Inr r \<and>
           length (experiences r) = length (experiences g)"
    using primary_path_experiences [OF p]
    by (auto simp: override_company_info_length split: option.split)
next
  assume "parsed_completion self jd ui = Inl e"
  then show "\<exists>r. generate_tailored_resume self jd ui = Inr r \<and> length (experiences r) = 3"
    by (simp add: generate_on_fallback_path legacy_generate_tailored_resume_def Let_def)
qed

theorem experience_count_as_generated_witness:
  "(parsed_completion answering_matcher ''Python developer'' ann_info = Inr generated_resume \<and>
    (\<exists>r. generate_tailored_resume answering_matcher ''Python developer'' ann_info = Inr r \<and>
         length (experiences r) = 1)) \<and>
   (parsed_completion failing_matcher ''Python developer'' ann_info = Inl GenerationError \<and>
    (\<exists>r. generate_tailored_resume failing_matcher ''Python developer'' ann_info = Inr r \<and>
         length (experiences r) = 3))"
  using experience_count_as_generated
          [of answering_matcher "''Python developer''" ann_info generated_resume GenerationError]
        experience_count_as_generated
          [of failing_matcher "''Python developer''" ann_info generated_resume GenerationError]
        answering_parsed [of "''Python developer''"] failing_parsed [of "''Python developer''"]
  by (simp add: generated_resume_def)

section \<open>Claim about the profile store\<close>




section \<open>Claim about the fallback summary\<close>

text \<open>
  Claim C7, as stated: the fallback summary is built from the top 3 sections by score. It
  fails when a section without any keyword is among the first three of all sections: the
  code leaves such a section out, the algorithm as stated takes its first paragraph.
\<close>

theorem fallback_summary_counterexample:
  "summary (legacy_generate_tailored_resume sample_matcher sample_job_description ann_info) =
     ''Data work'' @ [newline] @ ''Built python pipelines as developer. Intro about python''
       @ generic_statement \<and>
   spec_summary_as_stated (experience_data sample_matcher) sample_job_description =
     ''Data work'' @ [newline] @ ''Built python pipelines as developer. Intro about python Hobbies''
       @ [newline] @ ''Cooking'' @ generic_statement \<and>
   summary (legacy_generate_tailored_resume sample_matcher sample_job_description ann_info) \<noteq>
     spec_summary_as_stated (experience_data sample_matcher) sample_job_description"
  unfolding legacy_summary sample_experience_data sample_code_summary sample_stated_summary
  by (simp add: generic_statement_def)

text \<open>
  Claim C7, amended. The fallback summary is the result of this algorithm: the keywords are
  the top 15 words of the job description by frequency, without the stopwords and the words
  of length at most 3; the experience text is split into sections at its headings; a
  section's score is the number of keywords that occur in it, and sections of score 0 are
  left out; the first paragraphs of the top 3 remaining sections are joined by spaces, each
  one only if it fits into what is left of 1500 characters; the generic closing statement
  is appended when the result is shorter than 100 characters.
\<close>

theorem fallback_summary_algorithm:
  "summary (legacy_generate_tailored_resume self jd ui) = spec_summary (experience_data self) jd"
  unfolding legacy_summary generate_summary_spec extract_keywords_spec spec_summary_def Let_def
  by (rule refl)

theorem fallback_summary_algorithm_witness:
  "spec_summary sample_experience sample_job_description =
     ''Data work'' @ [newline] @ ''Built python pipelines as developer. Intro about python''
       @ generic_statement"
proof -
  have "spec_summary (experience_data sample_matcher) sample_job_description =
      summary (legacy_generate_tailored_resume sample_matcher sample_job_description ann_info)"
    by (rule fallback_summary_algorithm [symmetric])
  also have "\<dots> = generate_summary sample_matcher sample_job_description
      (extract_keywords sample_job_description)"
    by (rule legacy_summary)
  also have "\<dots> = ''Data work'' @ [newline] @
      ''Built python pipelines as developer. Intro about python'' @ generic_statement"
    by (rule sample_code_summary)
  finally show ?thesis unfolding sample_experience_data .
qed

end
